theory Spec2Isabelle
  imports Main "HOL-Library.Sublist"
begin

section \<open>Values, exceptions and the trace of collaborator calls\<close>

text \<open>
  The replay harness of \<^verbatim>\<open>torch/_dynamo/repro/aoti.py\<close>. A tensor is seen only
  through the attributes the harness reads or the codec stores: shape, stride, dtype and
  device; its data is outside the model. \<^verbatim>\<open>t.is_cuda\<close> holds when the type of the
  tensor's device is \<^verbatim>\<open>cuda\<close>.
\<close>

record tensor =
  shape :: "nat list"
  stride :: "nat list"
  dtype :: string
  device_type :: string
  device_index :: "nat option"

definition is_cuda :: "tensor \<Rightarrow> bool" where
  "is_cuda t = (device_type t = ''cuda'')"

text \<open>
  The runtime values that can stand in an argument list. \<open>PyInt\<close> is a Python
  \<^verbatim>\<open>int\<close> (a \<^verbatim>\<open>bool\<close> is an \<^verbatim>\<open>int\<close> for \<^verbatim>\<open>isinstance\<close>), \<open>PySymInt\<close> a
  \<^verbatim>\<open>torch.SymInt\<close> with its symbol and its hint, \<open>PyOther\<close> any other object
  (a float, a string, a list), carried by its printed form.
\<close>

datatype pyval =
    PyInt int
  | PySymInt string int
  | PyTensor tensor
  | PyNone
  | PyOther string

text \<open>
  A graph module is opaque but for its placeholder targets
  (\<^verbatim>\<open>fx_placeholder_targets\<close>).
\<close>

record graph =
  placeholder_targets :: "string list"
  graph_body :: nat

text \<open>
  An exception raised by a collaborator (export, the compiler, the loader, the compiled
  artifact, the comparison, the device runtime). \<open>exc_is_Exception\<close> says whether its
  class derives from \<^verbatim>\<open>Exception\<close> (\<^verbatim>\<open>KeyboardInterrupt\<close> and \<^verbatim>\<open>SystemExit\<close> do
  not); \<open>exc_repr\<close> is \<^verbatim>\<open>repr(e)\<close>.
\<close>

record py_exc =
  exc_is_Exception :: bool
  exc_repr :: string

text \<open>What a command of the harness ends with when it does not return.\<close>

datatype error =
    RuntimeError string
  | TypeError string
  | AccuracyError string
  | AttributeError string
  | KeyError string
  | SystemExit int
  | Raised py_exc

datatype warning =
    NoVersionAttribute
  | UnsupportedVersion int
  | UnrecognizedKwarg string

text \<open>
  The observable steps of a replay, in the order they happen: a line logged with
  \<^verbatim>\<open>log.warning\<close>, and each call that leaves the harness.
\<close>

datatype event =
    LogWarning warning
  | CallLoadArgsNop
  | CallLoadArgs
  | CallExport
  | CallCompile
  | CallLoad string
  | CallCompiled
  | CallSameTwoModels
  | CallSynchronize
  | CallMinifier

record world =
  events :: "event list"
  generate_intermediate_hooks :: bool

definition emit :: "event \<Rightarrow> world \<Rightarrow> world" where
  "emit e w = w\<lparr>events := events w @ [e]\<rparr>"

type_synonym config = "(string \<times> string) list option"

record minifier_knobs =
  knob_save_dir :: "string option"
  knob_offload_to_disk :: bool
  knob_skip_offload :: bool
  knob_skip_sanity :: bool
  knob_max_granularity :: "int option"

text \<open>
  The collaborators, each a black box with the contract of its call site:
  \<^verbatim>\<open>export(mod, args).module()\<close>, \<^verbatim>\<open>compile_fx_aot(gm, args, config_patches=...)\<close>
  giving the path of the shared object, \<^verbatim>\<open>torch._export.aot_load(so_path, device=...)\<close>
  giving a callable (named by a number), the call of that callable (its outputs are
  dropped by every caller), \<^verbatim>\<open>same_two_models\<close>, \<^verbatim>\<open>torch.cuda.synchronize\<close> and the
  \<^verbatim>\<open>minifier\<close>, which receives the failure predicate.
\<close>

record env =
  export_module :: "graph \<Rightarrow> pyval list \<Rightarrow> py_exc + graph"
  compile_fx_aot :: "graph \<Rightarrow> pyval list \<Rightarrow> config \<Rightarrow> py_exc + string"
  aot_load :: "string \<Rightarrow> string \<Rightarrow> py_exc + nat"
  call_compiled :: "nat \<Rightarrow> pyval list \<Rightarrow> py_exc option"
  same_two_models :: "graph \<Rightarrow> nat \<Rightarrow> pyval list \<Rightarrow> py_exc + bool"
  synchronize :: "py_exc option"
  minifier :: "graph \<Rightarrow> pyval list
      \<Rightarrow> (graph \<Rightarrow> pyval list \<Rightarrow> world \<Rightarrow> (py_exc + bool) \<times> world)
      \<Rightarrow> minifier_knobs \<Rightarrow> world \<Rightarrow> py_exc option \<times> world"

section \<open>The failure oracle\<close>

text \<open>
  \<^verbatim>\<open>except Exception as e\<close> of \<^verbatim>\<open>module_fails\<close>: an exception that is not an
  \<^verbatim>\<open>Exception\<close> passes through; otherwise
  \<^verbatim>\<open>if check_str is not None and check_str not in repr(e): return False\<close>, then
  \<^verbatim>\<open>return True\<close>. \<^verbatim>\<open>a in b\<close> on strings is \<^const>\<open>sublist\<close>.
\<close>

definition except_Exception :: "string option \<Rightarrow> py_exc \<Rightarrow> py_exc + bool" where
  "except_Exception check_str e =
     (if exc_is_Exception e then
        (case check_str of
           None \<Rightarrow> Inr True
         | Some s \<Rightarrow> if \<not> sublist s (exc_repr e) then Inr False else Inr True)
      else Inl e)"

text \<open>
  \<^verbatim>\<open>module_fails\<close>, the closure of \<^verbatim>\<open>repro_minify\<close> over \<^verbatim>\<open>config_patches\<close> and
  \<^verbatim>\<open>device\<close>.
\<close>

definition module_fails ::
  "env \<Rightarrow> config \<Rightarrow> string \<Rightarrow> graph \<Rightarrow> pyval list \<Rightarrow> string option \<Rightarrow> world
     \<Rightarrow> (py_exc + bool) \<times> world" where
  "module_fails E config_patches device gm flat_example_inputs check_str w =
     (let w1 = emit CallCompile w in
      case compile_fx_aot E gm flat_example_inputs config_patches of
        Inl e \<Rightarrow> (except_Exception check_str e, w1)
      | Inr so_path \<Rightarrow>
          (let w2 = emit (CallLoad device) w1 in
           case aot_load E so_path device of
             Inl e \<Rightarrow> (except_Exception check_str e, w2)
           | Inr compiled_model \<Rightarrow>
               (let w3 = emit CallCompiled w2 in
                case call_compiled E compiled_model flat_example_inputs of
                  Some e \<Rightarrow> (except_Exception check_str e, w3)
                | None \<Rightarrow> (Inr False, w3))))"

text \<open>
  The words of the specification: the exception, if any, that the attempt
  compile, load, execute once raises.
\<close>

definition attempt_raises :: "env \<Rightarrow> config \<Rightarrow> string \<Rightarrow> graph \<Rightarrow> pyval list \<Rightarrow> py_exc option" where
  "attempt_raises E config_patches device gm inputs =
     (case compile_fx_aot E gm inputs config_patches of
        Inl e \<Rightarrow> Some e
      | Inr so_path \<Rightarrow>
          (case aot_load E so_path device of
             Inl e \<Rightarrow> Some e
           | Inr compiled_model \<Rightarrow> call_compiled E compiled_model inputs))"

section \<open>The value codec\<close>

text \<open>
  Modelled from the spec: \<^verbatim>\<open>InputWriter\<close>, \<^verbatim>\<open>InputReader\<close> and
  \<^verbatim>\<open>NopInputReader\<close> of \<^verbatim>\<open>torch._dynamo.debug_utils\<close> are not among the sources.
  Following section 4.1, a writer holds the statement lines emitted so far: a tensor with
  its shape, stride, dtype and device, a symbolic integer with the one concrete value seen
  at capture time, a constant as a marker without payload; each line is labelled with the
  placeholder it stands for. \<^verbatim>\<open>writer.lines()\<close> is the text of a function
  \<^verbatim>\<open>load_args(reader)\<close> tagged with format version 0; a \<^verbatim>\<open>load_args\<close> read back
  from a script may carry any version or none.
\<close>

datatype stmt =
    TensorStmt string tensor
  | SymIntStmt string int
  | ConstStmt string

type_synonym input_writer = "stmt list"

record load_args =
  la_stmts :: "stmt list"
  la_version :: "int option"

definition writer_symint :: "input_writer \<Rightarrow> string \<Rightarrow> int \<Rightarrow> input_writer" where
  "writer_symint writer name val = writer @ [SymIntStmt name val]"

definition writer_tensor :: "input_writer \<Rightarrow> string \<Rightarrow> tensor \<Rightarrow> input_writer" where
  "writer_tensor writer name t = writer @ [TensorStmt name t]"

definition writer_const :: "input_writer \<Rightarrow> string \<Rightarrow> input_writer" where
  "writer_const writer name = writer @ [ConstStmt name]"

definition writer_lines :: "input_writer \<Rightarrow> load_args" where
  "writer_lines writer = \<lparr>la_stmts = writer, la_version = Some 0\<rparr>"

text \<open>
  Modelled from the spec: the two decoding passes. The counting pass
  (\<^verbatim>\<open>load_args(nop_reader)\<close>) only counts the values to come; the materializing pass
  (\<^verbatim>\<open>load_args(input_reader)\<close>) appends one value per statement to
  \<^verbatim>\<open>input_reader.args\<close>, in the order of the statements.
\<close>

fun read_stmt :: "stmt \<Rightarrow> pyval" where
  "read_stmt (TensorStmt name t) = PyTensor t"
| "read_stmt (SymIntStmt name val) = PyInt val"
| "read_stmt (ConstStmt name) = PyNone"

fun stmt_placeholder :: "stmt \<Rightarrow> string" where
  "stmt_placeholder (TensorStmt name t) = name"
| "stmt_placeholder (SymIntStmt name val) = name"
| "stmt_placeholder (ConstStmt name) = name"

definition nop_reader_total :: "load_args \<Rightarrow> nat" where
  "nop_reader_total la = length (la_stmts la)"

definition input_reader_args :: "string option \<Rightarrow> load_args \<Rightarrow> pyval list" where
  "input_reader_args save_dir la = map read_stmt (la_stmts la)"

text \<open>
  The loop of \<^verbatim>\<open>generate_compiler_repro_string\<close> over
  \<^verbatim>\<open>zip(fx_placeholder_targets(gm), args)\<close>: an \<^verbatim>\<open>int\<close> or \<^verbatim>\<open>SymInt\<close> goes to
  \<^verbatim>\<open>writer.symint\<close>, a tensor to \<^verbatim>\<open>writer.tensor\<close>, \<^verbatim>\<open>None\<close> to
  \<^verbatim>\<open>writer.const\<close>, and anything else raises \<^verbatim>\<open>TypeError\<close>.
\<close>

fun write_inputs :: "(string \<times> pyval) list \<Rightarrow> input_writer \<Rightarrow> error + input_writer" where
  "write_inputs [] writer = Inr writer"
| "write_inputs ((placeholder, arg) # rest) writer =
     (case arg of
        PyInt n \<Rightarrow> write_inputs rest (writer_symint writer placeholder n)
      | PySymInt name hint \<Rightarrow> write_inputs rest (writer_symint writer placeholder hint)
      | PyTensor t \<Rightarrow> write_inputs rest (writer_tensor writer placeholder t)
      | PyNone \<Rightarrow> write_inputs rest (writer_const writer placeholder)
      | PyOther printed \<Rightarrow>
          Inl (TypeError (''arg is neither SymInt/int nor torch.Tensor, '' @ printed)))"

text \<open>
  The part of \<^verbatim>\<open>generate_compiler_repro_string\<close> that encodes the inputs (the
  version header, the export of the graph and the closing lines of the script are text
  around it): the \<^verbatim>\<open>load_args\<close> written into the script, or the error raised.
\<close>

definition generate_compiler_repro_string :: "graph \<Rightarrow> pyval list \<Rightarrow> error + load_args" where
  "generate_compiler_repro_string gm args =
     (case write_inputs (zip (placeholder_targets gm) args) [] of
        Inl e \<Rightarrow> Inl e
      | Inr writer \<Rightarrow> Inr (writer_lines writer))"

section \<open>The replay driver\<close>

text \<open>
  The namespace that \<^verbatim>\<open>parser.parse_args\<close> returns. \<^verbatim>\<open>command\<close>,
  \<^verbatim>\<open>save_dir\<close> and \<^verbatim>\<open>device\<close> are registered for every subcommand. No subparser
  registers an argument named \<^verbatim>\<open>accuracy\<close>: \<open>opt_accuracy\<close> is \<open>None\<close>
  when the namespace has no such attribute, so that reading it raises
  \<^verbatim>\<open>AttributeError\<close>. The remaining attributes exist for \<^verbatim>\<open>minify\<close> (and
  \<^verbatim>\<open>check_str\<close> for \<^verbatim>\<open>minifier-query\<close>), the only command that reads them; for the
  other subcommands they are held at their defaults and never read.
\<close>

record options =
  opt_command :: string
  opt_save_dir :: "string option"
  opt_device :: string
  opt_accuracy :: "string option"
  opt_check_str :: "string option"
  opt_skip_saving_eager_intermediates :: bool
  opt_offload_to_disk :: bool
  opt_skip_sanity :: bool
  opt_max_granularity :: "int option"

definition repro_common ::
  "env \<Rightarrow> options \<Rightarrow> graph \<Rightarrow> load_args \<Rightarrow> world \<Rightarrow> (error + graph \<times> pyval list) \<times> world" where
  "repro_common E options module load_args w =
     (let w1 = (case la_version load_args of
                  None \<Rightarrow> emit (LogWarning NoVersionAttribute) w
                | Some v \<Rightarrow>
                    if v > 0 then emit (LogWarning (UnsupportedVersion v)) w else w);
          w2 = emit CallLoadArgsNop w1;
          total = nop_reader_total load_args;
          w3 = emit CallLoadArgs w2;
          args = input_reader_args (opt_save_dir options) load_args;
          w4 = emit CallExport w3
      in case export_module E module args of
           Inl e \<Rightarrow> (Inl (Raised e), w4)
         | Inr exported \<Rightarrow> (Inr (exported, args), w4\<lparr>generate_intermediate_hooks := True\<rparr>))"

definition repro_get_args ::
  "env \<Rightarrow> options \<Rightarrow> graph \<Rightarrow> load_args \<Rightarrow> config \<Rightarrow> world
     \<Rightarrow> (error + graph \<times> pyval list) \<times> world" where
  "repro_get_args E options module load_args config_patches w =
     (case repro_common E options module load_args w of
        (Inl e, w1) \<Rightarrow> (Inl e, w1)
      | (Inr (exported, args), w1) \<Rightarrow> (Inr (exported, args), w1))"

text \<open>The loop that sets \<^verbatim>\<open>need_sync\<close> in \<^verbatim>\<open>repro_run\<close>.\<close>

fun need_sync :: "pyval list \<Rightarrow> bool" where
  "need_sync [] = False"
| "need_sync (arg # rest) =
     (case arg of
        PyTensor t \<Rightarrow> if is_cuda t then True else need_sync rest
      | _ \<Rightarrow> need_sync rest)"

definition repro_run ::
  "env \<Rightarrow> options \<Rightarrow> graph \<Rightarrow> load_args \<Rightarrow> config \<Rightarrow> world \<Rightarrow> (error + unit) \<times> world" where
  "repro_run E options module load_args config_patches w =
     (case repro_common E options module load_args w of
        (Inl e, w1) \<Rightarrow> (Inl e, w1)
      | (Inr (exported, args), w1) \<Rightarrow>
          (let device = opt_device options in
           if device \<noteq> ''cpu'' \<and> \<not> prefix ''cuda'' device
           then (Inl (RuntimeError (''Unsupported device '' @ device)), w1)
           else
             (let w2 = emit CallCompile w1 in
              case compile_fx_aot E exported args config_patches of
                Inl e \<Rightarrow> (Inl (Raised e), w2)
              | Inr so_path \<Rightarrow>
                  (let w3 = emit (CallLoad device) w2 in
                   case aot_load E so_path device of
                     Inl e \<Rightarrow> (Inl (Raised e), w3)
                   | Inr compiled \<Rightarrow>
                       (case opt_accuracy options of
                          None \<Rightarrow> (Inl (AttributeError ''accuracy''), w3)
                        | Some accuracy \<Rightarrow>
                            if accuracy \<noteq> [] then
                              (let w4 = emit CallSameTwoModels w3 in
                               case same_two_models E exported compiled args of
                                 Inl e \<Rightarrow> (Inl (Raised e), w4)
                               | Inr same \<Rightarrow>
                                   if \<not> same
                                   then (Inl (AccuracyError ''Bad accuracy detected''), w4)
                                   else (Inr (), w4))
                            else
                              (let sync = need_sync args;
                                   w4 = emit CallCompiled w3 in
                               case call_compiled E compiled args of
                                 Some e \<Rightarrow> (Inl (Raised e), w4)
                               | None \<Rightarrow>
                                   if sync then
                                     (let w5 = emit CallSynchronize w4 in
                                      case synchronize E of
                                        Some e \<Rightarrow> (Inl (Raised e), w5)
                                      | None \<Rightarrow> (Inr (), w5))
                                   else (Inr (), w4)))))))"

definition repro_minify ::
  "env \<Rightarrow> options \<Rightarrow> graph \<Rightarrow> load_args \<Rightarrow> config \<Rightarrow> world \<Rightarrow> (error + unit) \<times> world" where
  "repro_minify E options module load_args config_patches w =
     (case repro_common E options module load_args w of
        (Inl e, w1) \<Rightarrow> (Inl e, w1)
      | (Inr (exported, args), w1) \<Rightarrow>
          (let device = opt_device options in
           if device \<noteq> ''cpu'' \<and> \<not> prefix ''cuda'' device
           then (Inl (RuntimeError (''Unsupported device '' @ device)), w1)
           else
             (let w2 = emit CallMinifier w1 in
              case minifier E exported args
                     (\<lambda>gm flat_example_inputs.
                        module_fails E config_patches device gm flat_example_inputs
                          (opt_check_str options))
                     \<lparr>knob_save_dir = opt_save_dir options,
                      knob_offload_to_disk = opt_offload_to_disk options,
                      knob_skip_offload = opt_skip_saving_eager_intermediates options,
                      knob_skip_sanity = opt_skip_sanity options,
                      knob_max_granularity = opt_max_granularity options\<rparr> w2 of
                (Some e, w3) \<Rightarrow> (Inl (Raised e), w3)
              | (None, w3) \<Rightarrow> (Inr (), w3))))"

section \<open>The entry point\<close>

text \<open>
  The words after the script name, as \<^verbatim>\<open>argparse\<close> reads them: a subcommand and
  its flags. Which flag each subparser accepts is the table that \<^verbatim>\<open>run_repro\<close>
  registers; an unknown subcommand or a flag the subparser does not know ends the
  process with \<^verbatim>\<open>SystemExit(2)\<close>.
\<close>

datatype cli_flag =
    SaveDirFlag string
  | NoSaveDirFlag
  | DeviceFlag string
  | SkipSavingEagerIntermediatesFlag
  | OffloadToDiskFlag
  | SkipSanityFlag
  | MaxGranularityFlag int
  | CheckStrFlag string

definition subparsers :: "string list" where
  "subparsers = [''run'', ''minify'', ''get_args'', ''minifier-query'']"

fun accepts :: "string \<Rightarrow> cli_flag \<Rightarrow> bool" where
  "accepts cmd (SaveDirFlag d) = True"
| "accepts cmd NoSaveDirFlag = True"
| "accepts cmd (DeviceFlag d) = True"
| "accepts cmd SkipSavingEagerIntermediatesFlag = (cmd = ''minify'')"
| "accepts cmd OffloadToDiskFlag = (cmd = ''minify'')"
| "accepts cmd SkipSanityFlag = (cmd = ''minify'')"
| "accepts cmd (MaxGranularityFlag n) = (cmd = ''minify'')"
| "accepts cmd (CheckStrFlag s) = (cmd = ''minify'' \<or> cmd = ''minifier-query'')"

fun store :: "cli_flag \<Rightarrow> options \<Rightarrow> options" where
  "store (SaveDirFlag d) options = options\<lparr>opt_save_dir := Some d\<rparr>"
| "store NoSaveDirFlag options = options\<lparr>opt_save_dir := None\<rparr>"
| "store (DeviceFlag d) options = options\<lparr>opt_device := d\<rparr>"
| "store SkipSavingEagerIntermediatesFlag options =
     options\<lparr>opt_skip_saving_eager_intermediates := True\<rparr>"
| "store OffloadToDiskFlag options = options\<lparr>opt_offload_to_disk := True\<rparr>"
| "store SkipSanityFlag options = options\<lparr>opt_skip_sanity := True\<rparr>"
| "store (MaxGranularityFlag n) options = options\<lparr>opt_max_granularity := Some n\<rparr>"
| "store (CheckStrFlag s) options = options\<lparr>opt_check_str := Some s\<rparr>"

fun parse_flags :: "string \<Rightarrow> cli_flag list \<Rightarrow> options \<Rightarrow> error + options" where
  "parse_flags cmd [] options = Inr options"
| "parse_flags cmd (f # fs) options =
     (if accepts cmd f then parse_flags cmd fs (store f options) else Inl (SystemExit 2))"

definition parse_args ::
  "string option \<Rightarrow> string option \<Rightarrow> string \<times> cli_flag list \<Rightarrow> error + options" where
  "parse_args save_dir check_str args =
     (case args of (cmd, flags) \<Rightarrow>
        if cmd \<in> set subparsers then
          parse_flags cmd flags
            \<lparr>opt_command = cmd,
             opt_save_dir = save_dir,
             opt_device = ''cpu'',
             opt_accuracy = None,
             opt_check_str = check_str,
             opt_skip_saving_eager_intermediates = False,
             opt_offload_to_disk = False,
             opt_skip_sanity = False,
             opt_max_granularity = None\<rparr>
        else Inl (SystemExit 2))"

text \<open>
  What a command returns: \<^verbatim>\<open>repro_get_args\<close> the pair of module and arguments, the
  other two \<^verbatim>\<open>None\<close>.
\<close>

datatype result = ReturnedNone | ReturnedArgs graph "pyval list"

definition COMMAND_FNS ::
  "string \<Rightarrow> (env \<Rightarrow> options \<Rightarrow> graph \<Rightarrow> load_args \<Rightarrow> config \<Rightarrow> world
      \<Rightarrow> (error + result) \<times> world) option" where
  "COMMAND_FNS key =
     (if key = ''minify'' then
        Some (\<lambda>E options module load_args config_patches w.
          case repro_minify E options module load_args config_patches w of
            (Inl e, w') \<Rightarrow> (Inl e, w') | (Inr u, w') \<Rightarrow> (Inr ReturnedNone, w'))
      else if key = ''run'' then
        Some (\<lambda>E options module load_args config_patches w.
          case repro_run E options module load_args config_patches w of
            (Inl e, w') \<Rightarrow> (Inl e, w') | (Inr u, w') \<Rightarrow> (Inr ReturnedNone, w'))
      else if key = ''get_args'' then
        Some (\<lambda>E options module load_args config_patches w.
          case repro_get_args E options module load_args config_patches w of
            (Inl e, w') \<Rightarrow> (Inl e, w')
          | (Inr (exported, args), w') \<Rightarrow> (Inr (ReturnedArgs exported args), w'))
      else None)"

text \<open>
  The \<^verbatim>\<open>accuracy\<close> argument is a \<^verbatim>\<open>bool\<close> or a string; \<^verbatim>\<open>True\<close> becomes
  \<^verbatim>\<open>"accuracy"\<close> and \<^verbatim>\<open>False\<close> the empty string.
\<close>

datatype accuracy_arg = AccBool bool | AccStr string

fun accuracy_string :: "accuracy_arg \<Rightarrow> string" where
  "accuracy_string (AccBool True) = ''accuracy''"
| "accuracy_string (AccBool False) = []"
| "accuracy_string (AccStr s) = s"

text \<open>
  \<^verbatim>\<open>run_repro\<close>. \<open>kwargs\<close> are the names of the keyword arguments beyond the
  declared ones, in the order given. \<open>sys_argv\<close> is \<open>None\<close> when
  \<^verbatim>\<open>len(sys.argv) <= 1\<close>, so that the parser reads \<^verbatim>\<open>[command]\<close>, and otherwise
  the words after the script name. The normalised \<^verbatim>\<open>accuracy\<close> is printed in the
  parser's description and goes nowhere else.
\<close>

definition run_repro ::
  "env \<Rightarrow> graph \<Rightarrow> load_args \<Rightarrow> config \<Rightarrow> string \<Rightarrow> accuracy_arg \<Rightarrow> string option
     \<Rightarrow> string option \<Rightarrow> string list \<Rightarrow> (string \<times> cli_flag list) option \<Rightarrow> world
     \<Rightarrow> (error + result) \<times> world" where
  "run_repro E module load_args config_patches command accuracy save_dir check_str kwargs
       sys_argv w =
     (let w1 = w\<lparr>events := events w @ map (\<lambda>k. LogWarning (UnrecognizedKwarg k)) kwargs\<rparr>;
          description_accuracy = accuracy_string accuracy;
          args = (case sys_argv of None \<Rightarrow> (command, []) | Some given \<Rightarrow> given)
      in case parse_args save_dir check_str args of
           Inl e \<Rightarrow> (Inl e, w1)
         | Inr options \<Rightarrow>
             (case COMMAND_FNS (opt_command options) of
                None \<Rightarrow> (Inl (KeyError (opt_command options)), w1)
              | Some command_fn \<Rightarrow> command_fn E options module load_args config_patches w1))"

section \<open>The words of the specification about the codec\<close>

text \<open>
  Decoding a symbolic integer "binds that name to that concrete value": what a captured
  value is expected to come back as.
\<close>

fun concretize :: "pyval \<Rightarrow> pyval" where
  "concretize (PySymInt name hint) = PyInt hint"
| "concretize v = v"

text \<open>The kinds of input the encoder takes: a tensor, an integer (plain or symbolic), None.\<close>

fun supported_input :: "pyval \<Rightarrow> bool" where
  "supported_input (PyOther printed) = False"
| "supported_input v = True"

text \<open>
  A statement stands for a pair of placeholder and value: it is labelled with the
  placeholder, decodes to the value made concrete, and is the bare marker when the value
  is None.
\<close>

definition encodes :: "stmt \<Rightarrow> string \<times> pyval \<Rightarrow> bool" where
  "encodes s pa =
     (stmt_placeholder s = fst pa \<and> read_stmt s = concretize (snd pa) \<and>
      (if snd pa = PyNone then s = ConstStmt (fst pa) else True))"

section \<open>Concrete inputs\<close>

text \<open>
  A two-placeholder graph with a \<open>4 \<times> 4\<close> tensor and the symbolic integer bound to 4
  (scenario A of the specification), and collaborators that all succeed.
\<close>

definition ex_graph :: graph where
  "ex_graph = \<lparr>placeholder_targets = [''arg0_1'', ''s0''], graph_body = 0\<rparr>"

definition ex_tensor :: tensor where
  "ex_tensor = \<lparr>shape = [4, 4], stride = [4, 1], dtype = ''torch.float32'',
                device_type = ''cpu'', device_index = None\<rparr>"

definition ex_cuda_tensor :: tensor where
  "ex_cuda_tensor = ex_tensor\<lparr>device_type := ''cuda'', device_index := Some 0\<rparr>"

definition ex_load_args :: load_args where
  "ex_load_args = \<lparr>la_stmts = [TensorStmt ''arg0_1'' ex_tensor, SymIntStmt ''s0'' 4],
                   la_version = Some 0\<rparr>"

definition ex_cuda_load_args :: load_args where
  "ex_cuda_load_args = \<lparr>la_stmts = [TensorStmt ''arg0_1'' ex_cuda_tensor, SymIntStmt ''s0'' 4],
                        la_version = Some 0\<rparr>"

definition ex_world :: world where
  "ex_world = \<lparr>events = [], generate_intermediate_hooks = False\<rparr>"

definition ex_env :: env where
  "ex_env = \<lparr>export_module = (\<lambda>module args. Inr module),
             compile_fx_aot = (\<lambda>gm args config_patches. Inr ''/tmp/model.so''),
             aot_load = (\<lambda>so_path device. Inr 0),
             call_compiled = (\<lambda>compiled args. None),
             same_two_models = (\<lambda>gm compiled args. Inr True),
             synchronize = None,
             minifier = (\<lambda>gm args fails knobs w.
                case fails gm args w of
                  (Inl e, w') \<Rightarrow> (Some e, w')
                | (Inr verdict, w') \<Rightarrow> (None, w'))\<rparr>"

text \<open>Scenario B: the compiled artifact raises \<^verbatim>\<open>RuntimeError("kernel launch failed")\<close>.\<close>

definition ex_kernel_failure :: py_exc where
  "ex_kernel_failure =
     \<lparr>exc_is_Exception = True,
      exc_repr = ''RuntimeError('' @ [CHR 0x27] @ ''kernel launch failed'' @ [CHR 0x27] @ '')''\<rparr>"

definition ex_failing_env :: env where
  "ex_failing_env = ex_env\<lparr>call_compiled := (\<lambda>compiled args. Some ex_kernel_failure)\<rparr>"

text \<open>Scenario D: the outputs of the compiled artifact differ from the eager ones.\<close>

definition ex_mismatch_env :: env where
  "ex_mismatch_env = ex_env\<lparr>same_two_models := (\<lambda>gm compiled args. Inr False)\<rparr>"

definition ex_options :: options where
  "ex_options = \<lparr>opt_command = ''run'', opt_save_dir = None, opt_device = ''cpu'',
                 opt_accuracy = Some [], opt_check_str = None,
                 opt_skip_saving_eager_intermediates = False, opt_offload_to_disk = False,
                 opt_skip_sanity = False, opt_max_granularity = None\<rparr>"

section \<open>Theorems\<close>

subsection \<open>Facts shared by the theorems\<close>

lemma emit_events: "events (emit e w) = events w @ [e]"
  by (simp add: emit_def)

lemma repro_common_fst:
  "fst (repro_common E options module la w) =
     (case export_module E module (input_reader_args (opt_save_dir options) la) of
        Inl e \<Rightarrow> Inl (Raised e)
      | Inr exported \<Rightarrow> Inr (exported, input_reader_args (opt_save_dir options) la))"
  by (simp add: repro_common_def Let_def split: sum.splits)

lemma repro_common_events:
  "events (snd (repro_common E options module la w)) =
     events w @
     (case la_version la of
        None \<Rightarrow> [LogWarning NoVersionAttribute]
      | Some v \<Rightarrow> if 0 < v then [LogWarning (UnsupportedVersion v)] else []) @
     [CallLoadArgsNop, CallLoadArgs, CallExport]"
  by (simp add: repro_common_def Let_def emit_events split: sum.splits option.splits)

lemma repro_common_device:
  "repro_common E (options\<lparr>opt_device := d\<rparr>) module la w = repro_common E options module la w"
  by (simp add: repro_common_def)

lemma map_snd_zip: "map snd (zip ps args) = take (length ps) args"
  by (simp add: map_snd_zip_take min_def)

lemma map_fst_zip: "map fst (zip ps args) = take (length args) ps"
  by (simp add: map_fst_zip_take min_def)

lemma write_inputs_Inr:
  "write_inputs ps writer = Inr writer' \<Longrightarrow>
     \<exists>new. writer' = writer @ new \<and> list_all2 encodes new ps"
proof (induction ps arbitrary: writer)
  case Nil
  then show ?case by simp
next
  case (Cons pa ps)
  obtain p a where pa: "pa = (p, a)" by (cases pa)
  have step: "\<exists>s. encodes s (p, a) \<and> write_inputs ps (writer @ [s]) = Inr writer'"
  proof (cases a)
    case (PyInt n)
    with Cons.prems pa have "encodes (SymIntStmt p n) (p, a) \<and>
        write_inputs ps (writer @ [SymIntStmt p n]) = Inr writer'"
      by (simp add: encodes_def writer_symint_def)
    then show ?thesis by blast
  next
    case (PySymInt name hint)
    with Cons.prems pa have "encodes (SymIntStmt p hint) (p, a) \<and>
        write_inputs ps (writer @ [SymIntStmt p hint]) = Inr writer'"
      by (simp add: encodes_def writer_symint_def)
    then show ?thesis by blast
  next
    case (PyTensor t)
    with Cons.prems pa have "encodes (TensorStmt p t) (p, a) \<and>
        write_inputs ps (writer @ [TensorStmt p t]) = Inr writer'"
      by (simp add: encodes_def writer_tensor_def)
    then show ?thesis by blast
  next
    case PyNone
    with Cons.prems pa have "encodes (ConstStmt p) (p, a) \<and>
        write_inputs ps (writer @ [ConstStmt p]) = Inr writer'"
      by (simp add: encodes_def writer_const_def)
    then show ?thesis by blast
  next
    case (PyOther printed)
    with Cons.prems pa show ?thesis by simp
  qed
  then obtain s where s: "encodes s (p, a)" "write_inputs ps (writer @ [s]) = Inr writer'"
    by blast
  from Cons.IH [OF s(2)] obtain new where
    n: "writer' = (writer @ [s]) @ new" "list_all2 encodes new ps"
    by blast
  have "writer' = writer @ (s # new) \<and> list_all2 encodes (s # new) (pa # ps)"
    using n s(1) pa by simp
  then show ?case by blast
qed

lemma write_inputs_supported:
  "list_all supported_input (map snd ps) \<Longrightarrow> \<exists>writer'. write_inputs ps writer = Inr writer'"
proof (induction ps arbitrary: writer)
  case Nil
  then show ?case by simp
next
  case (Cons pa ps)
  obtain p a where pa: "pa = (p, a)" by (cases pa)
  from Cons.prems pa have "supported_input a" "list_all supported_input (map snd ps)"
    by simp_all
  then show ?case
    using Cons.IH pa by (cases a) simp_all
qed

lemma write_inputs_unsupported:
  "\<not> list_all supported_input (map snd ps) \<Longrightarrow>
     \<exists>msg. write_inputs ps writer = Inl (TypeError msg)"
proof (induction ps arbitrary: writer)
  case Nil
  then show ?case by simp
next
  case (Cons pa ps)
  obtain p a where pa: "pa = (p, a)" by (cases pa)
  show ?case
  proof (cases a)
    case (PyOther printed)
    then show ?thesis using pa by simp
  next
    case (PyInt n)
    with Cons.prems pa have "\<not> list_all supported_input (map snd ps)" by simp
    from Cons.IH [OF this] show ?thesis using pa PyInt by simp
  next
    case (PySymInt name hint)
    with Cons.prems pa have "\<not> list_all supported_input (map snd ps)" by simp
    from Cons.IH [OF this] show ?thesis using pa PySymInt by simp
  next
    case (PyTensor t)
    with Cons.prems pa have "\<not> list_all supported_input (map snd ps)" by simp
    from Cons.IH [OF this] show ?thesis using pa PyTensor by simp
  next
    case PyNone
    with Cons.prems pa have "\<not> list_all supported_input (map snd ps)" by simp
    from Cons.IH [OF this] show ?thesis using pa PyNone by simp
  qed
qed

lemma encodes_map_placeholder:
  "list_all2 encodes new ps \<Longrightarrow> map stmt_placeholder new = map fst ps"
  by (induction new ps rule: list_all2_induct) (simp_all add: encodes_def)

lemma encodes_map_read:
  "list_all2 encodes new ps \<Longrightarrow> map read_stmt new = map concretize (map snd ps)"
  by (induction new ps rule: list_all2_induct) (simp_all add: encodes_def)

lemma generate_Inr:
  assumes "generate_compiler_repro_string gm args = Inr la"
  shows "la_version la = Some 0 \<and>
         list_all2 encodes (la_stmts la) (zip (placeholder_targets gm) args)"
proof -
  from assms obtain writer where
    w: "write_inputs (zip (placeholder_targets gm) args) [] = Inr writer"
       "la = writer_lines writer"
    by (auto simp: generate_compiler_repro_string_def split: sum.splits)
  from write_inputs_Inr [OF w(1)]
  have "list_all2 encodes writer (zip (placeholder_targets gm) args)"
    by simp
  then show ?thesis using w(2) by (simp add: writer_lines_def)
qed

text \<open>
  No subparser stores an attribute \<^verbatim>\<open>accuracy\<close>: whatever the command line, the
  namespace that reaches the command has none.
\<close>

lemma parse_flags_accuracy:
  "parse_flags cmd flags options = Inr options' \<Longrightarrow> opt_accuracy options' = opt_accuracy options"
proof (induction flags arbitrary: options)
  case Nil
  then show ?case by simp
next
  case (Cons f fs)
  then have "parse_flags cmd fs (store f options) = Inr options'"
    by (simp split: if_splits)
  from Cons.IH [OF this] show ?case by (cases f) simp_all
qed

lemma parse_args_no_accuracy:
  "parse_args save_dir check_str args = Inr options \<Longrightarrow> opt_accuracy options = None"
  by (cases args) (auto simp: parse_args_def dest: parse_flags_accuracy split: if_splits)

text \<open>
  What \<^verbatim>\<open>repro_run\<close> does past the loader when the options it is handed do carry an
  accuracy mode: with a non-empty mode it compares the exported module with the compiled
  artifact on the decoded arguments and raises \<^verbatim>\<open>AccuracyError\<close> when they differ;
  with the empty mode it calls the compiled artifact once, and synchronizes right after a
  call that returned exactly when some argument is a CUDA tensor.
\<close>

lemma need_sync_iff: "need_sync args \<longleftrightarrow> (\<exists>t. PyTensor t \<in> set args \<and> is_cuda t)"
proof (induction args)
  case Nil
  then show ?case by simp
next
  case (Cons a args)
  then show ?case by (cases a) auto
qed

lemma repro_run_past_loader:
  assumes "repro_common E options module la w = (Inr (exported, args), w1)"
    and "opt_device options = ''cpu'' \<or> prefix ''cuda'' (opt_device options)"
    and "compile_fx_aot E exported args cp = Inr so_path"
    and "aot_load E so_path (opt_device options) = Inr compiled"
  shows "repro_run E options module la cp w =
     (let w3 = emit (CallLoad (opt_device options)) (emit CallCompile w1) in
      case opt_accuracy options of
        None \<Rightarrow> (Inl (AttributeError ''accuracy''), w3)
      | Some accuracy \<Rightarrow>
          if accuracy \<noteq> [] then
            (case same_two_models E exported compiled args of
               Inl e \<Rightarrow> (Inl (Raised e), emit CallSameTwoModels w3)
             | Inr same \<Rightarrow>
                 if same then (Inr (), emit CallSameTwoModels w3)
                 else (Inl (AccuracyError ''Bad accuracy detected''), emit CallSameTwoModels w3))
          else
            (case call_compiled E compiled args of
               Some e \<Rightarrow> (Inl (Raised e), emit CallCompiled w3)
             | None \<Rightarrow>
                 if \<exists>t. PyTensor t \<in> set args \<and> is_cuda t then
                   (case synchronize E of
                      Some e \<Rightarrow> (Inl (Raised e), emit CallSynchronize (emit CallCompiled w3))
                    | None \<Rightarrow> (Inr (), emit CallSynchronize (emit CallCompiled w3)))
                 else (Inr (), emit CallCompiled w3)))"
  using assms
  by (auto simp: repro_run_def Let_def need_sync_iff split: option.splits sum.splits)

subsection \<open>The failure oracle\<close>

text \<open>
  C1. \<^verbatim>\<open>module_fails(graph, inputs, check_str)\<close> returns false when compiling, loading
  and executing once raise nothing. When they raise an exception (an instance of
  \<^verbatim>\<open>Exception\<close>, the class the handler catches), it returns true if \<open>check_str\<close> is
  \<^verbatim>\<open>None\<close> or a substring of the exception's \<^verbatim>\<open>repr\<close>, and false if \<open>check_str\<close> is
  set and not contained in it.
\<close>

theorem module_fails_verdict:
  "(attempt_raises E cp dev gm inputs = None \<longrightarrow>
      fst (module_fails E cp dev gm inputs check_str w) = Inr False) \<and>
   (\<forall>e. attempt_raises E cp dev gm inputs = Some e \<and> exc_is_Exception e \<longrightarrow>
      (check_str = None \<longrightarrow> fst (module_fails E cp dev gm inputs check_str w) = Inr True) \<and>
      (\<forall>s. check_str = Some s \<and> sublist s (exc_repr e) \<longrightarrow>
         fst (module_fails E cp dev gm inputs check_str w) = Inr True) \<and>
      (\<forall>s. check_str = Some s \<and> \<not> sublist s (exc_repr e) \<longrightarrow>
         fst (module_fails E cp dev gm inputs check_str w) = Inr False))"
  by (auto simp: module_fails_def attempt_raises_def except_Exception_def Let_def
           split: sum.splits option.splits)

text \<open>
  Scenario B of the specification: the artifact raises
  \<^verbatim>\<open>RuntimeError("kernel launch failed")\<close>; the filter \<^verbatim>\<open>"kernel launch"\<close> gives true,
  the filter \<^verbatim>\<open>"segfault"\<close> gives false, and an artifact that runs gives false.
\<close>

theorem module_fails_verdict_witness:
  "attempt_raises ex_env None ''cpu'' ex_graph [] = None \<and>
   fst (module_fails ex_env None ''cpu'' ex_graph [] (Some ''segfault'') ex_world) = Inr False \<and>
   attempt_raises ex_failing_env None ''cpu'' ex_graph [] = Some ex_kernel_failure \<and>
   exc_is_Exception ex_kernel_failure \<and>
   fst (module_fails ex_failing_env None ''cpu'' ex_graph [] None ex_world) = Inr True \<and>
   sublist ''kernel launch'' (exc_repr ex_kernel_failure) \<and>
   fst (module_fails ex_failing_env None ''cpu'' ex_graph [] (Some ''kernel launch'') ex_world)
     = Inr True \<and>
   \<not> sublist ''segfault'' (exc_repr ex_kernel_failure) \<and>
   fst (module_fails ex_failing_env None ''cpu'' ex_graph [] (Some ''segfault'') ex_world)
     = Inr False"
proof -
  have quiet: "attempt_raises ex_env None ''cpu'' ex_graph [] = None"
    by (simp add: attempt_raises_def ex_env_def)
  have raises: "attempt_raises ex_failing_env None ''cpu'' ex_graph [] = Some ex_kernel_failure"
    by (simp add: attempt_raises_def ex_failing_env_def ex_env_def)
  have exc: "exc_is_Exception ex_kernel_failure"
    by (simp add: ex_kernel_failure_def)
  have inside: "sublist ''kernel launch'' (exc_repr ex_kernel_failure)"
    by (simp add: ex_kernel_failure_def sublist_Cons_right)
  have outside: "\<not> sublist ''segfault'' (exc_repr ex_kernel_failure)"
    by (simp add: ex_kernel_failure_def sublist_Cons_right)
  have r0: "fst (module_fails ex_env None ''cpu'' ex_graph [] (Some ''segfault'') ex_world)
      = Inr False"
    using module_fails_verdict [of ex_env None "''cpu''" ex_graph "[]" "Some ''segfault''" ex_world]
      quiet by blast
  have r1: "fst (module_fails ex_failing_env None ''cpu'' ex_graph [] None ex_world) = Inr True"
    using module_fails_verdict [of ex_failing_env None "''cpu''" ex_graph "[]" None ex_world]
      raises exc by blast
  have r2: "fst (module_fails ex_failing_env None ''cpu'' ex_graph [] (Some ''kernel launch'')
      ex_world) = Inr True"
    using module_fails_verdict [of ex_failing_env None "''cpu''" ex_graph "[]"
        "Some ''kernel launch''" ex_world] raises exc inside by blast
  have r3: "fst (module_fails ex_failing_env None ''cpu'' ex_graph [] (Some ''segfault'')
      ex_world) = Inr False"
    using module_fails_verdict [of ex_failing_env None "''cpu''" ex_graph "[]"
        "Some ''segfault''" ex_world] raises exc outside by blast
  show ?thesis
    by (intro conjI quiet raises exc inside outside r0 r1 r2 r3)
qed

subsection \<open>The common replay path and the device check\<close>

text \<open>
  C6. Whatever format version the serialized inputs declare, also none, the version check
  of \<^verbatim>\<open>repro_common\<close> raises nothing: it logs one warning when the version is missing
  or greater than 0 and none otherwise, both decoding passes and the export follow, and the
  outcome is that of exporting the decoded arguments.
\<close>

theorem repro_common_version_warn_only:
  "fst (repro_common E options module la w) =
     (case export_module E module (input_reader_args (opt_save_dir options) la) of
        Inl e \<Rightarrow> Inl (Raised e)
      | Inr exported \<Rightarrow> Inr (exported, input_reader_args (opt_save_dir options) la)) \<and>
   events (snd (repro_common E options module la w)) =
     events w @
     (case la_version la of
        None \<Rightarrow> [LogWarning NoVersionAttribute]
      | Some v \<Rightarrow> if 0 < v then [LogWarning (UnsupportedVersion v)] else []) @
     [CallLoadArgsNop, CallLoadArgs, CallExport]"
  by (simp add: repro_common_fst repro_common_events)

theorem repro_common_version_warn_only_witness:
  "fst (repro_common ex_env ex_options ex_graph (ex_load_args\<lparr>la_version := Some 3\<rparr>) ex_world) =
     Inr (ex_graph, [PyTensor ex_tensor, PyInt 4]) \<and>
   events (snd (repro_common ex_env ex_options ex_graph (ex_load_args\<lparr>la_version := Some 3\<rparr>)
     ex_world)) =
     [LogWarning (UnsupportedVersion 3), CallLoadArgsNop, CallLoadArgs, CallExport] \<and>
   fst (repro_common ex_env ex_options ex_graph (ex_load_args\<lparr>la_version := None\<rparr>) ex_world) =
     Inr (ex_graph, [PyTensor ex_tensor, PyInt 4]) \<and>
   events (snd (repro_common ex_env ex_options ex_graph (ex_load_args\<lparr>la_version := None\<rparr>)
     ex_world)) =
     [LogWarning NoVersionAttribute, CallLoadArgsNop, CallLoadArgs, CallExport]"
  using repro_common_version_warn_only
      [of ex_env ex_options ex_graph "ex_load_args\<lparr>la_version := Some 3\<rparr>" ex_world]
    repro_common_version_warn_only
      [of ex_env ex_options ex_graph "ex_load_args\<lparr>la_version := None\<rparr>" ex_world]
  by (simp add: ex_env_def ex_load_args_def ex_world_def input_reader_args_def)

text \<open>
  C2, as the code has it. With a device that is neither \<^verbatim>\<open>"cpu"\<close> nor prefixed by
  \<^verbatim>\<open>"cuda"\<close>, \<^verbatim>\<open>repro_run\<close> first goes through the common replay path (version
  check, both decoding passes, export of the module); the command then fails with the
  unsupported-device error if the export succeeded and with the export's exception
  otherwise, and in both cases nothing is compiled, loaded or executed.
\<close>

theorem repro_run_unsupported_device:
  assumes "opt_device options \<noteq> ''cpu''" and "\<not> prefix ''cuda'' (opt_device options)"
  shows "fst (repro_run E options module la cp w) =
           (case export_module E module (input_reader_args (opt_save_dir options) la) of
              Inl e \<Rightarrow> Inl (Raised e)
            | Inr exported \<Rightarrow>
                Inl (RuntimeError (''Unsupported device '' @ opt_device options))) \<and>
         events (snd (repro_run E options module la cp w)) =
           events w @
           (case la_version la of
              None \<Rightarrow> [LogWarning NoVersionAttribute]
            | Some v \<Rightarrow> if 0 < v then [LogWarning (UnsupportedVersion v)] else []) @
           [CallLoadArgsNop, CallLoadArgs, CallExport]"
proof -
  obtain r w1 where c: "repro_common E options module la w = (r, w1)"
    by (cases "repro_common E options module la w")
  have f: "r = (case export_module E module (input_reader_args (opt_save_dir options) la) of
        Inl e \<Rightarrow> Inl (Raised e)
      | Inr exported \<Rightarrow> Inr (exported, input_reader_args (opt_save_dir options) la))"
    using repro_common_fst [of E options module la w] c by simp
  have ev: "events w1 = events w @
     (case la_version la of
        None \<Rightarrow> [LogWarning NoVersionAttribute]
      | Some v \<Rightarrow> if 0 < v then [LogWarning (UnsupportedVersion v)] else []) @
     [CallLoadArgsNop, CallLoadArgs, CallExport]"
    using repro_common_events [of E options module la w] c by simp
  have run: "repro_run E options module la cp w =
      (case r of Inl e \<Rightarrow> (Inl e, w1)
       | Inr p \<Rightarrow> (Inl (RuntimeError (''Unsupported device '' @ opt_device options)), w1))"
    using assms c by (simp add: repro_run_def Let_def split: sum.splits prod.splits)
  show ?thesis
    using f ev by (simp add: run split: sum.splits)
qed

theorem repro_run_unsupported_device_witness:
  "opt_device (ex_options\<lparr>opt_device := ''tpu''\<rparr>) \<noteq> ''cpu'' \<and>
   \<not> prefix ''cuda'' (opt_device (ex_options\<lparr>opt_device := ''tpu''\<rparr>)) \<and>
   fst (repro_run ex_env (ex_options\<lparr>opt_device := ''tpu''\<rparr>) ex_graph ex_load_args None
     ex_world) = Inl (RuntimeError ''Unsupported device tpu'') \<and>
   events (snd (repro_run ex_env (ex_options\<lparr>opt_device := ''tpu''\<rparr>) ex_graph ex_load_args
     None ex_world)) = [CallLoadArgsNop, CallLoadArgs, CallExport]"
proof -
  have h1: "opt_device (ex_options\<lparr>opt_device := ''tpu''\<rparr>) \<noteq> ''cpu''" by simp
  have h2: "\<not> prefix ''cuda'' (opt_device (ex_options\<lparr>opt_device := ''tpu''\<rparr>))" by simp
  show ?thesis
    using h1 h2 repro_run_unsupported_device [OF h1 h2, of ex_env ex_graph ex_load_args None ex_world]
    by (simp add: ex_env_def ex_load_args_def ex_world_def)
qed

text \<open>
  C2 as stated fails: on the device \<^verbatim>\<open>"tpu"\<close> the run does end with the
  unsupported-device error, but only after the module has been exported.
\<close>

theorem repro_run_unsupported_device_counterexample:
  "fst (repro_run ex_env (ex_options\<lparr>opt_device := ''tpu''\<rparr>) ex_graph ex_load_args None
     ex_world) = Inl (RuntimeError ''Unsupported device tpu'') \<and>
   CallExport \<in> set (events (snd (repro_run ex_env (ex_options\<lparr>opt_device := ''tpu''\<rparr>)
     ex_graph ex_load_args None ex_world)))"
  by (simp add: repro_run_def repro_common_def Let_def emit_def ex_env_def ex_options_def
      ex_load_args_def ex_world_def input_reader_args_def)

text \<open>
  C10. \<^verbatim>\<open>repro_get_args\<close> does not look at the device: its outcome is the same for
  every device string, it never raises the unsupported-device \<^verbatim>\<open>RuntimeError\<close>, and it
  returns the exported module with the decoded arguments whenever the export succeeds;
  on a device that is neither \<^verbatim>\<open>"cpu"\<close> nor prefixed by \<^verbatim>\<open>"cuda"\<close>, \<^verbatim>\<open>repro_run\<close>
  and \<^verbatim>\<open>repro_minify\<close> raise that error on the same input.
\<close>

theorem repro_get_args_no_device_validation:
  "repro_get_args E (options\<lparr>opt_device := d\<rparr>) module la cp w =
     repro_get_args E options module la cp w \<and>
   (\<forall>msg. fst (repro_get_args E (options\<lparr>opt_device := d\<rparr>) module la cp w)
      \<noteq> Inl (RuntimeError msg)) \<and>
   (\<forall>exported.
      export_module E module (input_reader_args (opt_save_dir options) la) = Inr exported \<longrightarrow>
      fst (repro_get_args E (options\<lparr>opt_device := d\<rparr>) module la cp w) =
        Inr (exported, input_reader_args (opt_save_dir options) la) \<and>
      (d \<noteq> ''cpu'' \<and> \<not> prefix ''cuda'' d \<longrightarrow>
         fst (repro_run E (options\<lparr>opt_device := d\<rparr>) module la cp w) =
           Inl (RuntimeError (''Unsupported device '' @ d)) \<and>
         fst (repro_minify E (options\<lparr>opt_device := d\<rparr>) module la cp w) =
           Inl (RuntimeError (''Unsupported device '' @ d))))"
proof -
  obtain r w1 where c: "repro_common E options module la w = (r, w1)"
    by (cases "repro_common E options module la w")
  have f: "r = (case export_module E module (input_reader_args (opt_save_dir options) la) of
        Inl e \<Rightarrow> Inl (Raised e)
      | Inr exported \<Rightarrow> Inr (exported, input_reader_args (opt_save_dir options) la))"
    using repro_common_fst [of E options module la w] c by simp
  have g: "repro_get_args E (options\<lparr>opt_device := d\<rparr>) module la cp w = (r, w1)"
    using c by (simp add: repro_get_args_def repro_common_device split: sum.splits prod.splits)
  have g': "repro_get_args E options module la cp w = (r, w1)"
    using c by (simp add: repro_get_args_def split: sum.splits prod.splits)
  have run: "d \<noteq> ''cpu'' \<and> \<not> prefix ''cuda'' d \<Longrightarrow>
      fst (repro_run E (options\<lparr>opt_device := d\<rparr>) module la cp w) =
      (case r of Inl e \<Rightarrow> Inl e | Inr p \<Rightarrow> Inl (RuntimeError (''Unsupported device '' @ d)))"
    using c by (simp add: repro_run_def repro_common_device Let_def split: sum.splits prod.splits)
  have mini: "d \<noteq> ''cpu'' \<and> \<not> prefix ''cuda'' d \<Longrightarrow>
      fst (repro_minify E (options\<lparr>opt_device := d\<rparr>) module la cp w) =
      (case r of Inl e \<Rightarrow> Inl e | Inr p \<Rightarrow> Inl (RuntimeError (''Unsupported device '' @ d)))"
    using c
    by (simp add: repro_minify_def repro_common_device Let_def split: sum.splits prod.splits)
  show ?thesis
    using f run mini by (auto simp: g g' split: sum.splits)
qed

theorem repro_get_args_no_device_validation_witness:
  "export_module ex_env ex_graph (input_reader_args (opt_save_dir ex_options) ex_load_args) =
     Inr ex_graph \<and>
   ''tpu'' \<noteq> ''cpu'' \<and> \<not> prefix ''cuda'' ''tpu'' \<and>
   fst (repro_get_args ex_env (ex_options\<lparr>opt_device := ''tpu''\<rparr>) ex_graph ex_load_args None
     ex_world) = Inr (ex_graph, [PyTensor ex_tensor, PyInt 4]) \<and>
   fst (repro_run ex_env (ex_options\<lparr>opt_device := ''tpu''\<rparr>) ex_graph ex_load_args None
     ex_world) = Inl (RuntimeError ''Unsupported device tpu'') \<and>
   fst (repro_minify ex_env (ex_options\<lparr>opt_device := ''tpu''\<rparr>) ex_graph ex_load_args None
     ex_world) = Inl (RuntimeError ''Unsupported device tpu'')"
proof -
  have h: "export_module ex_env ex_graph (input_reader_args (opt_save_dir ex_options) ex_load_args)
      = Inr ex_graph"
    by (simp add: ex_env_def)
  have d: "''tpu'' \<noteq> ''cpu'' \<and> \<not> prefix ''cuda'' ''tpu''" by simp
  have a: "input_reader_args (opt_save_dir ex_options) ex_load_args = [PyTensor ex_tensor, PyInt 4]"
    by (simp add: input_reader_args_def ex_load_args_def)
  note inst = repro_get_args_no_device_validation
        [where E = ex_env and options = ex_options and d = "''tpu''" and module = ex_graph
           and la = ex_load_args and cp = None and w = ex_world]
  have g: "fst (repro_get_args ex_env (ex_options\<lparr>opt_device := ''tpu''\<rparr>) ex_graph
      ex_load_args None ex_world) =
      Inr (ex_graph, input_reader_args (opt_save_dir ex_options) ex_load_args)"
    using inst h by blast
  have r: "fst (repro_run ex_env (ex_options\<lparr>opt_device := ''tpu''\<rparr>) ex_graph ex_load_args
      None ex_world) = Inl (RuntimeError (''Unsupported device '' @ ''tpu''))"
    using inst h d by blast
  have m: "fst (repro_minify ex_env (ex_options\<lparr>opt_device := ''tpu''\<rparr>) ex_graph
      ex_load_args None ex_world) = Inl (RuntimeError (''Unsupported device '' @ ''tpu''))"
    using inst h d by blast
  show ?thesis
    using h d a g r m by simp
qed

subsection \<open>The value codec\<close>

text \<open>
  C7, as the code has it. When every input paired with a placeholder is a tensor, a plain
  or symbolic integer, or None, the encode step succeeds and emits one statement per pair,
  labelled with its placeholder, and None is encoded as the bare marker; when some paired
  input is anything else (a float or another non-integer constant), the step raises
  \<^verbatim>\<open>TypeError\<close>.
\<close>

theorem generate_compiler_repro_string_supported_kinds:
  "(list_all supported_input (take (length (placeholder_targets gm)) args) \<longrightarrow>
      (\<exists>la. generate_compiler_repro_string gm args = Inr la \<and>
         length (la_stmts la) = min (length (placeholder_targets gm)) (length args) \<and>
         (\<forall>i < length (la_stmts la).
            stmt_placeholder (la_stmts la ! i) = placeholder_targets gm ! i \<and>
            (args ! i = PyNone \<longrightarrow>
               la_stmts la ! i = ConstStmt (placeholder_targets gm ! i))))) \<and>
   (\<not> list_all supported_input (take (length (placeholder_targets gm)) args) \<longrightarrow>
      (\<exists>msg. generate_compiler_repro_string gm args = Inl (TypeError msg)))"
proof (intro conjI impI)
  let ?ps = "zip (placeholder_targets gm) args"
  assume "list_all supported_input (take (length (placeholder_targets gm)) args)"
  then have "list_all supported_input (map snd ?ps)"
    by (simp add: map_snd_zip)
  from write_inputs_supported [OF this] obtain writer where
    "write_inputs ?ps [] = Inr writer" by blast
  then have g: "generate_compiler_repro_string gm args = Inr (writer_lines writer)"
    by (simp add: generate_compiler_repro_string_def)
  from generate_Inr [OF g] have e: "list_all2 encodes (la_stmts (writer_lines writer)) ?ps"
    by simp
  then have len: "length (la_stmts (writer_lines writer)) =
      min (length (placeholder_targets gm)) (length args)"
    by (simp add: list_all2_lengthD)
  have nth: "\<forall>i < length (la_stmts (writer_lines writer)).
       stmt_placeholder (la_stmts (writer_lines writer) ! i) = placeholder_targets gm ! i \<and>
       (args ! i = PyNone \<longrightarrow>
          la_stmts (writer_lines writer) ! i = ConstStmt (placeholder_targets gm ! i))"
  proof (intro allI impI)
    fix i assume i: "i < length (la_stmts (writer_lines writer))"
    with len have i': "i < length (placeholder_targets gm)" "i < length args" by simp_all
    from list_all2_nthD [OF e i]
    have "encodes (la_stmts (writer_lines writer) ! i) (?ps ! i)" .
    with i' show
      "stmt_placeholder (la_stmts (writer_lines writer) ! i) = placeholder_targets gm ! i \<and>
       (args ! i = PyNone \<longrightarrow>
          la_stmts (writer_lines writer) ! i = ConstStmt (placeholder_targets gm ! i))"
      by (simp add: encodes_def)
  qed
  show "\<exists>la. generate_compiler_repro_string gm args = Inr la \<and>
         length (la_stmts la) = min (length (placeholder_targets gm)) (length args) \<and>
         (\<forall>i < length (la_stmts la).
            stmt_placeholder (la_stmts la ! i) = placeholder_targets gm ! i \<and>
            (args ! i = PyNone \<longrightarrow>
               la_stmts la ! i = ConstStmt (placeholder_targets gm ! i)))"
    by (rule exI [of _ "writer_lines writer"]) (intro conjI g len nth)
next
  let ?ps = "zip (placeholder_targets gm) args"
  assume "\<not> list_all supported_input (take (length (placeholder_targets gm)) args)"
  then have "\<not> list_all supported_input (map snd ?ps)"
    by (simp add: map_snd_zip)
  from write_inputs_unsupported [OF this] obtain msg where
    "write_inputs ?ps [] = Inl (TypeError msg)" by blast
  then show "\<exists>msg. generate_compiler_repro_string gm args = Inl (TypeError msg)"
    by (simp add: generate_compiler_repro_string_def)
qed

text \<open>
  A tensor and None are encoded, None as the marker of its placeholder; a tensor and the
  float 1.5 are rejected.
\<close>

theorem generate_compiler_repro_string_supported_kinds_witness:
  "list_all supported_input (take (length (placeholder_targets ex_graph)) [PyTensor ex_tensor, PyNone]) \<and>
   (\<exists>la. generate_compiler_repro_string ex_graph [PyTensor ex_tensor, PyNone] = Inr la \<and>
      length (la_stmts la) = 2 \<and> la_stmts la ! 1 = ConstStmt ''s0'') \<and>
   \<not> list_all supported_input
       (take (length (placeholder_targets ex_graph)) [PyTensor ex_tensor, PyOther ''1.5'']) \<and>
   (\<exists>msg. generate_compiler_repro_string ex_graph [PyTensor ex_tensor, PyOther ''1.5''] =
      Inl (TypeError msg))"
proof -
  have h1: "list_all supported_input
      (take (length (placeholder_targets ex_graph)) [PyTensor ex_tensor, PyNone])"
    by (simp add: ex_graph_def)
  have h2: "\<not> list_all supported_input
      (take (length (placeholder_targets ex_graph)) [PyTensor ex_tensor, PyOther ''1.5''])"
    by (simp add: ex_graph_def)
  from generate_compiler_repro_string_supported_kinds [of ex_graph "[PyTensor ex_tensor, PyNone]"] h1
  obtain la where la: "generate_compiler_repro_string ex_graph [PyTensor ex_tensor, PyNone] = Inr la"
      "length (la_stmts la) = min (length (placeholder_targets ex_graph)) (length [PyTensor ex_tensor, PyNone])"
      "\<forall>i < length (la_stmts la).
            stmt_placeholder (la_stmts la ! i) = placeholder_targets ex_graph ! i \<and>
            ([PyTensor ex_tensor, PyNone] ! i = PyNone \<longrightarrow>
               la_stmts la ! i = ConstStmt (placeholder_targets ex_graph ! i))"
    by blast
  from la(2) have len: "length (la_stmts la) = 2" by (simp add: ex_graph_def)
  with la(3) have "[PyTensor ex_tensor, PyNone] ! 1 = PyNone \<longrightarrow>
               la_stmts la ! 1 = ConstStmt (placeholder_targets ex_graph ! 1)"
    by simp
  then have marker: "la_stmts la ! 1 = ConstStmt ''s0''" by (simp add: ex_graph_def)
  have ok: "\<exists>la. generate_compiler_repro_string ex_graph [PyTensor ex_tensor, PyNone] = Inr la \<and>
      length (la_stmts la) = 2 \<and> la_stmts la ! 1 = ConstStmt ''s0''"
    using la(1) len marker by blast
  have bad: "\<exists>msg. generate_compiler_repro_string ex_graph [PyTensor ex_tensor, PyOther ''1.5''] =
      Inl (TypeError msg)"
    using generate_compiler_repro_string_supported_kinds
      [of ex_graph "[PyTensor ex_tensor, PyOther ''1.5'']"] h2 by blast
  show ?thesis
    by (intro conjI h1 h2 ok bad)
qed

text \<open>
  C7 as stated fails: a constant that is a scalar but not an integer, here the float 1.5,
  is not encoded; the encode step raises \<^verbatim>\<open>TypeError\<close>.
\<close>

theorem generate_compiler_repro_string_constant_counterexample:
  "generate_compiler_repro_string ex_graph [PyTensor ex_tensor, PyOther ''1.5''] =
     Inl (TypeError ''arg is neither SymInt/int nor torch.Tensor, 1.5'')"
  by (simp add: generate_compiler_repro_string_def ex_graph_def writer_tensor_def)

text \<open>
  C9, as the code has it. For every graph and every input list whose inputs paired with a
  placeholder are tensors, plain or symbolic integers, or None, in any order of kinds, the
  encoder succeeds; the statements it emits are labelled with the graph's placeholders in
  the graph's order, the decoded sequence is the input list in the same order (each
  symbolic integer as its concrete value, cut to the number of placeholders), and
  \<^verbatim>\<open>repro_common\<close> hands that sequence, in that order, to the export and returns
  it as the call tuple.
\<close>

theorem encode_decode_preserves_order:
  assumes "list_all supported_input (take (length (placeholder_targets gm)) args)"
  shows "\<exists>la. generate_compiler_repro_string gm args = Inr la \<and>
           map stmt_placeholder (la_stmts la) = take (length args) (placeholder_targets gm) \<and>
           input_reader_args save_dir la =
             map concretize (take (length (placeholder_targets gm)) args) \<and>
           fst (repro_common E options module la w) =
             (case export_module E module
                     (map concretize (take (length (placeholder_targets gm)) args)) of
                Inl e \<Rightarrow> Inl (Raised e)
              | Inr exported \<Rightarrow>
                  Inr (exported,
                       map concretize (take (length (placeholder_targets gm)) args)))"
proof -
  let ?ps = "zip (placeholder_targets gm) args"
  from assms have "list_all supported_input (map snd ?ps)"
    by (simp add: map_snd_zip)
  from write_inputs_supported [OF this] obtain writer where
    "write_inputs ?ps [] = Inr writer" by blast
  then have g: "generate_compiler_repro_string gm args = Inr (writer_lines writer)"
    by (simp add: generate_compiler_repro_string_def)
  from generate_Inr [OF g]
  have e: "list_all2 encodes (la_stmts (writer_lines writer)) ?ps" by simp
  have names: "map stmt_placeholder (la_stmts (writer_lines writer)) =
      take (length args) (placeholder_targets gm)"
    using encodes_map_placeholder [OF e] by (simp add: map_fst_zip)
  have decoded: "\<And>sd. input_reader_args sd (writer_lines writer) =
      map concretize (take (length (placeholder_targets gm)) args)"
    using encodes_map_read [OF e] by (simp add: map_snd_zip input_reader_args_def)
  have common: "fst (repro_common E options module (writer_lines writer) w) =
      (case export_module E module
              (map concretize (take (length (placeholder_targets gm)) args)) of
         Inl e \<Rightarrow> Inl (Raised e)
       | Inr exported \<Rightarrow>
           Inr (exported, map concretize (take (length (placeholder_targets gm)) args)))"
    by (simp add: decoded repro_common_fst split: sum.splits)
  show ?thesis
    by (rule exI [of _ "writer_lines writer"]) (intro conjI g names decoded common)
qed

text \<open>
  Scenario A of the specification: a \<open>4 \<times> 4\<close> tensor and the symbolic integer
  \<^verbatim>\<open>s0\<close> bound to 4 are encoded, and come back as a tuple of length 2, the tensor
  first and 4 second.
\<close>

theorem encode_decode_preserves_order_witness:
  "list_all supported_input
     (take (length (placeholder_targets ex_graph)) [PyTensor ex_tensor, PySymInt ''s0'' 4]) \<and>
   (\<exists>la. generate_compiler_repro_string ex_graph [PyTensor ex_tensor, PySymInt ''s0'' 4] = Inr la \<and>
      map stmt_placeholder (la_stmts la) = [''arg0_1'', ''s0''] \<and>
      input_reader_args None la = [PyTensor ex_tensor, PyInt 4] \<and>
      fst (repro_common ex_env ex_options ex_graph la ex_world) =
        Inr (ex_graph, [PyTensor ex_tensor, PyInt 4]))"
proof -
  have h: "list_all supported_input
      (take (length (placeholder_targets ex_graph)) [PyTensor ex_tensor, PySymInt ''s0'' 4])"
    by (simp add: ex_graph_def)
  from encode_decode_preserves_order
      [OF h, where save_dir = None and E = ex_env and options = ex_options
         and module = ex_graph and w = ex_world]
  obtain la where la:
    "generate_compiler_repro_string ex_graph [PyTensor ex_tensor, PySymInt ''s0'' 4] = Inr la"
    "map stmt_placeholder (la_stmts la) =
       take (length [PyTensor ex_tensor, PySymInt ''s0'' 4]) (placeholder_targets ex_graph)"
    "input_reader_args None la =
       map concretize
         (take (length (placeholder_targets ex_graph)) [PyTensor ex_tensor, PySymInt ''s0'' 4])"
    "fst (repro_common ex_env ex_options ex_graph la ex_world) =
       (case export_module ex_env ex_graph
               (map concretize
                  (take (length (placeholder_targets ex_graph))
                     [PyTensor ex_tensor, PySymInt ''s0'' 4])) of
          Inl e \<Rightarrow> Inl (Raised e)
        | Inr exported \<Rightarrow>
            Inr (exported,
                 map concretize
                   (take (length (placeholder_targets ex_graph))
                      [PyTensor ex_tensor, PySymInt ''s0'' 4])))"
    by blast
  have names: "map stmt_placeholder (la_stmts la) = [''arg0_1'', ''s0'']"
    using la(2) by (simp add: ex_graph_def)
  have decoded: "input_reader_args None la = [PyTensor ex_tensor, PyInt 4]"
    using la(3) by (simp add: ex_graph_def)
  have common: "fst (repro_common ex_env ex_options ex_graph la ex_world) =
      Inr (ex_graph, [PyTensor ex_tensor, PyInt 4])"
    using la(4) by (simp add: ex_graph_def ex_env_def)
  have "\<exists>la. generate_compiler_repro_string ex_graph [PyTensor ex_tensor, PySymInt ''s0'' 4] = Inr la \<and>
      map stmt_placeholder (la_stmts la) = [''arg0_1'', ''s0''] \<and>
      input_reader_args None la = [PyTensor ex_tensor, PyInt 4] \<and>
      fst (repro_common ex_env ex_options ex_graph la ex_world) =
        Inr (ex_graph, [PyTensor ex_tensor, PyInt 4])"
    by (rule exI [of _ la]) (intro conjI la(1) names decoded common)
  with h show ?thesis by (rule conjI)
qed

text \<open>
  C9 as stated fails: not every ordered list of input kinds is encoded. With a constant
  that is not an integer in front of a symbolic integer, the encoder raises
  \<^verbatim>\<open>TypeError\<close> and emits no statement at all, in the placeholder order or any other.
\<close>

theorem encode_decode_preserves_order_counterexample:
  "generate_compiler_repro_string ex_graph [PyOther ''2.5'', PySymInt ''s0'' 4] =
     Inl (TypeError ''arg is neither SymInt/int nor torch.Tensor, 2.5'')"
  by (simp add: generate_compiler_repro_string_def ex_graph_def)

subsection \<open>The entry point\<close>



text \<open>
  C3. The claim says that the command \<^verbatim>\<open>minifier-query\<close> runs the repro as
  \<^verbatim>\<open>run\<close> does, with the result inverted. The parser accepts the subcommand, but
  \<^verbatim>\<open>COMMAND_FNS\<close> has no entry for it: the call ends with
  \<^verbatim>\<open>KeyError('minifier-query')\<close> before anything is decoded or run.
\<close>

theorem run_repro_minifier_query_key_error:
  "run_repro ex_env ex_graph ex_load_args None ''minifier-query'' (AccStr []) None None []
     None ex_world = (Inl (KeyError ''minifier-query''), ex_world)"
  by (simp add: run_repro_def parse_args_def subparsers_def COMMAND_FNS_def ex_world_def)

text \<open>
  C4. The claim says that a run with a non-empty accuracy mode compares the two modules
  and raises \<^verbatim>\<open>AccuracyError\<close> when they differ. Entered through \<^verbatim>\<open>run_repro\<close>
  with \<^verbatim>\<open>accuracy=True\<close> and outputs that differ, the run ends with
  \<^verbatim>\<open>AttributeError\<close> on \<^verbatim>\<open>options.accuracy\<close> right after the load, and the
  comparison is never called.
\<close>

theorem run_repro_run_accuracy_attribute_error:
  "run_repro ex_mismatch_env ex_graph ex_load_args None ''run'' (AccBool True) None None []
     None ex_world =
   (Inl (AttributeError ''accuracy''),
    \<lparr>events = [CallLoadArgsNop, CallLoadArgs, CallExport, CallCompile, CallLoad ''cpu''],
     generate_intermediate_hooks = True\<rparr>)"
  by (simp add: run_repro_def parse_args_def subparsers_def COMMAND_FNS_def repro_run_def
      repro_common_def Let_def emit_def input_reader_args_def ex_mismatch_env_def ex_env_def
      ex_load_args_def ex_world_def)

text \<open>
  C5. The claim says that a run with the empty accuracy mode executes the compiled
  artifact exactly once and synchronizes after it when an input is a CUDA tensor. Entered
  through \<^verbatim>\<open>run_repro\<close> with \<^verbatim>\<open>accuracy=""\<close>, the device \<^verbatim>\<open>cuda\<close> and a CUDA
  tensor among the inputs, the run ends with \<^verbatim>\<open>AttributeError\<close> on
  \<^verbatim>\<open>options.accuracy\<close> right after the load: the artifact is not executed and there
  is no synchronization.
\<close>

theorem run_repro_run_crash_mode_attribute_error:
  "run_repro ex_env ex_graph ex_cuda_load_args None ''run'' (AccStr []) None None []
     (Some (''run'', [DeviceFlag ''cuda''])) ex_world =
   (Inl (AttributeError ''accuracy''),
    \<lparr>events = [CallLoadArgsNop, CallLoadArgs, CallExport, CallCompile, CallLoad ''cuda''],
     generate_intermediate_hooks = True\<rparr>)"
  by (simp add: run_repro_def parse_args_def subparsers_def COMMAND_FNS_def repro_run_def
      repro_common_def Let_def emit_def input_reader_args_def ex_env_def
      ex_cuda_load_args_def ex_world_def)


end
